theory Spec2Isabelle
  imports Main "HOL-Library.Word" "HOL-Library.Signed_Division"
begin

unbundle bit_operations_syntax

section \<open>binx: the byte viewer's reducer, renderer and pattern search\<close>

text \<open>
  A shallow embedding of \<^verbatim>\<open>main.go\<close>. Go's \<^verbatim>\<open>int64\<close> is \<open>64 word\<close>; Go's \<^verbatim>\<open>int\<close> is
  taken at its 64-bit size (amd64, arm64), so \<^verbatim>\<open>int64(w)\<close> is the identity. Signed
  comparisons of the source are \<open><s\<close> and \<open>\<le>s\<close>. A Go \<^verbatim>\<open>string\<close> is a sequence of
  bytes and is modelled as an Isabelle \<open>string\<close> (a list of 8-bit characters); a
  \<^verbatim>\<open>rune\<close> is \<open>32 word\<close>.
\<close>

type_synonym byte = "8 word"
type_synonym int64 = "64 word"
type_synonym goint = "64 word"
type_synonym uint64 = "64 word"
type_synonym rune = "32 word"

subsection \<open>Library functions the program calls\<close>

text \<open>
  \<^verbatim>\<open>encoding/hex\<close>: \<^verbatim>\<open>fromHexChar\<close> maps one hexadecimal digit to its value;
  \<^verbatim>\<open>Decode\<close> walks the input in pairs, reports the first character that is no
  hexadecimal digit as \<^verbatim>\<open>InvalidByteError\<close>, and reports \<^verbatim>\<open>ErrLength\<close> for an odd
  length whose trailing character is a digit. \<^verbatim>\<open>DecodeString\<close> returns the bytes
  decoded before the error together with the error.
\<close>

datatype hex_error = ErrLength | InvalidByteError byte

definition byte_of_char :: "char \<Rightarrow> byte" where
  "byte_of_char c = of_nat (of_char c)"

definition fromHexChar :: "char \<Rightarrow> byte option" where
  "fromHexChar c =
     (let n = (of_char c :: nat) in
      if 48 \<le> n \<and> n \<le> 57 then Some (of_nat (n - 48))
      else if 97 \<le> n \<and> n \<le> 102 then Some (of_nat (n - 97 + 10))
      else if 65 \<le> n \<and> n \<le> 70 then Some (of_nat (n - 65 + 10))
      else None)"

fun DecodeString :: "string \<Rightarrow> byte list \<times> hex_error option" where
  "DecodeString [] = ([], None)"
| "DecodeString [c] =
     (case fromHexChar c of
        None \<Rightarrow> ([], Some (InvalidByteError (byte_of_char c)))
      | Some a \<Rightarrow> ([], Some ErrLength))"
| "DecodeString (p # q # rest) =
     (case fromHexChar p of
        None \<Rightarrow> ([], Some (InvalidByteError (byte_of_char p)))
      | Some a \<Rightarrow>
          (case fromHexChar q of
             None \<Rightarrow> ([], Some (InvalidByteError (byte_of_char q)))
           | Some b \<Rightarrow>
               (case DecodeString rest of
                  (ds, e) \<Rightarrow> ((push_bit 4 a OR b) # ds, e))))"

text \<open>
  \<^verbatim>\<open>bytes.Index(s, sep)\<close> is the index of the first instance of \<^verbatim>\<open>sep\<close> in \<^verbatim>\<open>s\<close>, or
  \<^verbatim>\<open>-1\<close> if \<^verbatim>\<open>sep\<close> is not present; an empty \<^verbatim>\<open>sep\<close> is present at index 0.
\<close>

definition HasPrefix :: "byte list \<Rightarrow> byte list \<Rightarrow> bool" where
  "HasPrefix s p = (length p \<le> length s \<and> take (length p) s = p)"

fun first_index :: "byte list \<Rightarrow> byte list \<Rightarrow> nat option" where
  "first_index [] sep = (if sep = [] then Some 0 else None)"
| "first_index (b # bs) sep =
     (if HasPrefix (b # bs) sep then Some 0 else map_option Suc (first_index bs sep))"

definition Index :: "byte list \<Rightarrow> byte list \<Rightarrow> goint" where
  "Index s sep = (case first_index s sep of None \<Rightarrow> - 1 | Some i \<Rightarrow> of_nat i)"

subsection \<open>Byte slices\<close>

text \<open>
  A Go slice sees \<^verbatim>\<open>len\<close> elements of its backing array; the \<^verbatim>\<open>cap - len\<close> elements
  after them are out of reach of indexing but within reach of a slice expression,
  whose upper bound is the capacity. \<open>elems\<close> are the \<^verbatim>\<open>len\<close> visible bytes (the
  file's contents), \<open>spare\<close> the rest of the backing array.
\<close>

record ByteSlice =
  elems :: "byte list"
  spare :: "byte list"

definition len :: "ByteSlice \<Rightarrow> nat" where
  "len b = length (elems b)"

definition cap :: "ByteSlice \<Rightarrow> nat" where
  "cap b = length (elems b) + length (spare b)"

subsection \<open>findBytePattern\<close>

text \<open>
  The source returns the pair \<^verbatim>\<open>(int64, error)\<close>: \<^verbatim>\<open>(0, err)\<close> when the pattern does
  not decode, \<^verbatim>\<open>(int64(loc), nil)\<close> otherwise, where \<^verbatim>\<open>loc\<close> is \<^verbatim>\<open>-1\<close> when the
  decoded pattern does not occur.
\<close>

definition findBytePattern :: "string \<Rightarrow> ByteSlice \<Rightarrow> int64 \<times> hex_error option" where
  "findBytePattern p buf =
     (case DecodeString p of
        (decodedPattern, Some err) \<Rightarrow> (0, Some err)
      | (decodedPattern, None) \<Rightarrow> (Index (elems buf) decodedPattern, None))"

text \<open>
  The error strings of \<^verbatim>\<open>encoding/hex\<close>: \<^verbatim>\<open>ErrLength\<close> is a fixed message and
  \<^verbatim>\<open>InvalidByteError\<close> formats the offending byte with \<^verbatim>\<open>%#U\<close>, that is
  \<^verbatim>\<open>U+\<close>, at least four upper-case hexadecimal digits and, for a printable
  character, the quoted character itself. \<^verbatim>\<open>string(rune)\<close> is the UTF-8 encoding
  of the code point, with U+FFFD for a value that is no valid code point.
\<close>

definition string_of_rune :: "rune \<Rightarrow> string" where
  "string_of_rune r0 =
     (let r = (if r0 <s 0 \<or> 0x10FFFF <s r0 \<or> (0xD800 \<le>s r0 \<and> r0 \<le>s 0xDFFF)
               then 0xFFFD else r0);
          n = unat r
      in if n < 0x80 then [char_of n]
         else if n < 0x800 then [char_of (0xC0 + n div 64), char_of (0x80 + n mod 64)]
         else if n < 0x10000 then
           [char_of (0xE0 + n div 4096), char_of (0x80 + (n div 64) mod 64),
            char_of (0x80 + n mod 64)]
         else
           [char_of (0xF0 + n div 262144), char_of (0x80 + (n div 4096) mod 64),
            char_of (0x80 + (n div 64) mod 64), char_of (0x80 + n mod 64)])"

definition udigit :: "nat \<Rightarrow> char" where
  "udigit d = ''0123456789ABCDEF'' ! (d mod 16)"

definition IsPrint :: "byte \<Rightarrow> bool" where
  "IsPrint b =
     (let r = unat b in
      if 0x20 \<le> r \<and> r \<le> 0x7E then True
      else if 0xA1 \<le> r \<and> r \<le> 0xFF then r \<noteq> 0xAD
      else False)"

definition fmtUnicode :: "byte \<Rightarrow> string" where
  "fmtUnicode b =
     ''U+00'' @ [udigit (unat b div 16), udigit (unat b mod 16)] @
     (if IsPrint b then '' '' @ [CHR 0x27] @ string_of_rune (ucast b) @ [CHR 0x27] else [])"

fun Error :: "hex_error \<Rightarrow> string" where
  "Error ErrLength = ''encoding/hex: odd length hex string''"
| "Error (InvalidByteError b) = ''encoding/hex: invalid byte: '' @ fmtUnicode b"

text \<open>
  \<^verbatim>\<open>strconv.ParseInt\<close> and \<^verbatim>\<open>strconv.ParseUint\<close>. With base 0 the base comes from
  the prefix: \<^verbatim>\<open>0b\<close> selects base 2, \<^verbatim>\<open>0o\<close> base 8, \<^verbatim>\<open>0x\<close> base 16 (in either
  case of the letter, and only when a character follows the prefix), any other
  leading \<^verbatim>\<open>0\<close> base 8, anything else base 10; with base 0 the digits may also be
  separated by underscores, which \<^verbatim>\<open>underscoreOK\<close> checks once the digits are read.
  Both functions return a value together with the error: 0 with a syntax error, the
  nearest bound with a range error.
\<close>

datatype strconv_err = ErrSyntax | ErrRange | ErrBase int | ErrBitSize int

datatype NumError = NumError string string strconv_err

definition syntaxError :: "string \<Rightarrow> string \<Rightarrow> NumError" where
  "syntaxError fn str = NumError fn str ErrSyntax"

definition rangeError :: "string \<Rightarrow> string \<Rightarrow> NumError" where
  "rangeError fn str = NumError fn str ErrRange"

definition baseError :: "string \<Rightarrow> string \<Rightarrow> int \<Rightarrow> NumError" where
  "baseError fn str base = NumError fn str (ErrBase base)"

definition bitSizeError :: "string \<Rightarrow> string \<Rightarrow> int \<Rightarrow> NumError" where
  "bitSizeError fn str bitSize = NumError fn str (ErrBitSize bitSize)"

definition lower :: "char \<Rightarrow> nat" where
  "lower c = unat (byte_of_char c OR 0x20)"

text \<open>
  \<^verbatim>\<open>underscoreOK\<close>: an underscore must stand between digits or between a base prefix
  and a digit. The loop keeps the kind of the last character seen: \<^verbatim>\<open>^\<close> at the
  start, \<^verbatim>\<open>0\<close> for a digit or a base prefix, \<^verbatim>\<open>_\<close> for an underscore, \<^verbatim>\<open>!\<close> for
  anything else.
\<close>

fun underscoreOK_loop :: "bool \<Rightarrow> char \<Rightarrow> string \<Rightarrow> bool" where
  "underscoreOK_loop hex i [] = (i \<noteq> CHR ''_'')"
| "underscoreOK_loop hex i (c # cs) =
     (let n = (of_char c :: nat) in
      if (48 \<le> n \<and> n \<le> 57) \<or> (hex \<and> 97 \<le> lower c \<and> lower c \<le> 102)
      then underscoreOK_loop hex CHR ''0'' cs
      else if c = CHR ''_'' then
        (if i \<noteq> CHR ''0'' then False else underscoreOK_loop hex CHR ''_'' cs)
      else if i = CHR ''_'' then False
      else underscoreOK_loop hex CHR ''!'' cs)"

definition underscoreOK :: "string \<Rightarrow> bool" where
  "underscoreOK s0 =
     (let s = (if length s0 \<ge> 1 \<and> (s0 ! 0 = CHR ''-'' \<or> s0 ! 0 = CHR ''+'')
               then drop 1 s0 else s0)
      in if length s \<ge> 2 \<and> s ! 0 = CHR ''0'' \<and>
            (lower (s ! 1) = 98 \<or> lower (s ! 1) = 111 \<or> lower (s ! 1) = 120)
         then underscoreOK_loop (lower (s ! 1) = 120) CHR ''0'' (drop 2 s)
         else underscoreOK_loop False CHR ''^'' s)"

text \<open>
  The digit loop of \<^verbatim>\<open>ParseUint\<close>, with the accumulator \<^verbatim>\<open>n\<close> and the flag
  \<^verbatim>\<open>underscores\<close>; the check after the loop is its last equation.
\<close>

fun ParseUint_loop ::
  "string \<Rightarrow> bool \<Rightarrow> int \<Rightarrow> uint64 \<Rightarrow> uint64 \<Rightarrow> bool \<Rightarrow> uint64 \<Rightarrow> string \<Rightarrow>
     uint64 \<times> NumError option" where
  "ParseUint_loop s0 base0 base cutoff maxVal underscores n [] =
     (if underscores \<and> \<not> underscoreOK s0 then (0, Some (syntaxError ''ParseUint'' s0))
      else (n, None))"
| "ParseUint_loop s0 base0 base cutoff maxVal underscores n (c # cs) =
     (let k = (of_char c :: nat) in
      if c = CHR ''_'' \<and> base0 then ParseUint_loop s0 base0 base cutoff maxVal True n cs
      else if \<not> (48 \<le> k \<and> k \<le> 57) \<and> \<not> (97 \<le> lower c \<and> lower c \<le> 122)
      then (0, Some (syntaxError ''ParseUint'' s0))
      else
        (let d = (if 48 \<le> k \<and> k \<le> 57 then k - 48 else lower c - 97 + 10) in
         if int d \<ge> base then (0, Some (syntaxError ''ParseUint'' s0))
         else if n \<ge> cutoff then (maxVal, Some (rangeError ''ParseUint'' s0))
         else
           (let n' = n * of_int base;
                n1 = n' + of_nat d
            in if n1 < n' \<or> n1 > maxVal then (maxVal, Some (rangeError ''ParseUint'' s0))
               else ParseUint_loop s0 base0 base cutoff maxVal underscores n1 cs)))"

definition ParseUint :: "string \<Rightarrow> int \<Rightarrow> int \<Rightarrow> uint64 \<times> NumError option" where
  "ParseUint s base_arg bitSize0 =
     (if s = [] then (0, Some (syntaxError ''ParseUint'' s))
      else
        (let base0 = (base_arg = 0) in
         case
           (if 2 \<le> base_arg \<and> base_arg \<le> 36 then Inr (base_arg, s)
            else if base_arg = 0 then
              (if s ! 0 = CHR ''0'' then
                 (if length s \<ge> 3 \<and> lower (s ! 1) = 98 then Inr (2, drop 2 s)
                  else if length s \<ge> 3 \<and> lower (s ! 1) = 111 then Inr (8, drop 2 s)
                  else if length s \<ge> 3 \<and> lower (s ! 1) = 120 then Inr (16, drop 2 s)
                  else Inr (8, drop 1 s))
               else Inr (10, s))
            else Inl (baseError ''ParseUint'' s base_arg))
         of
           Inl e \<Rightarrow> (0, Some e)
         | Inr (base, digits) \<Rightarrow>
             (if bitSize0 \<noteq> 0 \<and> (bitSize0 < 0 \<or> bitSize0 > 64)
              then (0, Some (bitSizeError ''ParseUint'' s bitSize0))
              else
                (let bitSize = (if bitSize0 = 0 then 64 else bitSize0);
                     cutoff = (- 1) div of_int base + 1;
                     maxVal = push_bit (nat bitSize) 1 - 1
                 in ParseUint_loop s base0 base cutoff maxVal False 0 digits))))"

definition ParseInt :: "string \<Rightarrow> int \<Rightarrow> int \<Rightarrow> int64 \<times> NumError option" where
  "ParseInt s0 base bitSize0 =
     (if s0 = [] then (0, Some (syntaxError ''ParseInt'' s0))
      else
        (let neg = (s0 ! 0 = CHR ''-'');
             s = (if s0 ! 0 = CHR ''+'' \<or> s0 ! 0 = CHR ''-'' then drop 1 s0 else s0)
         in case ParseUint s base bitSize0 of
              (un, Some (NumError fn str ErrSyntax)) \<Rightarrow> (0, Some (NumError ''ParseInt'' s0 ErrSyntax))
            | (un, Some (NumError fn str (ErrBase b))) \<Rightarrow> (0, Some (NumError ''ParseInt'' s0 (ErrBase b)))
            | (un, Some (NumError fn str (ErrBitSize b))) \<Rightarrow>
                (0, Some (NumError ''ParseInt'' s0 (ErrBitSize b)))
            | (un, _) \<Rightarrow>
                (let bitSize = (if bitSize0 = 0 then 64 else bitSize0);
                     cutoff = push_bit (nat (bitSize - 1)) (1 :: uint64)
                 in if \<not> neg \<and> un \<ge> cutoff then (cutoff - 1, Some (rangeError ''ParseInt'' s0))
                    else if neg \<and> un > cutoff then (- cutoff, Some (rangeError ''ParseInt'' s0))
                    else (if neg then - un else un, None))))"

subsection \<open>State, actions and outcomes\<close>

text \<open>
  The input modes and the action names are the source's constants. Of the terminal
  (\<^verbatim>\<open>tcell.Screen\<close>) the model keeps what the reducer and the renderer read or set:
  its size (columns, rows) and its style. The calls that only draw cells
  (\<^verbatim>\<open>emitStr\<close>, \<^verbatim>\<open>emitStatBar\<close>, \<^verbatim>\<open>Show\<close>) touch no field of \<^verbatim>\<open>AppState\<close> and are
  left out, as is the mutex: one reduction and one render pass are atomic steps.
\<close>

definition NormalMode :: int where "NormalMode = 0"
definition SeekInputMode :: int where "SeekInputMode = 1"
definition PatternInputMode :: int where "PatternInputMode = 2"

definition BinxResize :: string where "BinxResize = ''BINX_RESIZE''"
definition BinxEscape :: string where "BinxEscape = ''BINX_ESCAPE''"
definition BinxKeyEnter :: string where "BinxKeyEnter = ''BINX_KEYENTER''"
definition BinxKeyUp :: string where "BinxKeyUp = ''BINX_KEYUP''"
definition BinxKeyDown :: string where "BinxKeyDown = ''BINX_KEYDOWN''"
definition BinxSetScreenStyle :: string where "BinxSetScreenStyle = ''BINX_SETSTYLE''"
definition BinxToggleSeekMode :: string where "BinxToggleSeekMode = ''BINX_TOGGLE_SEEKMODE''"
definition BinxKeyS :: string where "BinxKeyS = ''BINX_KEY_S''"
definition BinxKeyF :: string where "BinxKeyF = ''BINX_KEY_F''"
definition BinxKeyOther :: string where "BinxKeyOther = ''BINX_KEY_OTHER''"

type_synonym Style = "64 word"

record Screen =
  Size :: "goint \<times> goint"
  style :: Style

record AppState =
  filename :: string
  dat :: ByteSlice
  screen :: Screen
  byteVisWidth :: goint
  byteVisHeight :: goint
  statStyle :: Style
  byteStyle :: Style
  alertStyle :: Style
  startByte :: int64
  mode :: int
  userInput :: string
  highlightPos :: int64
  highlightLength :: int64
  lastAction :: string
  status :: string

text \<open>
  The payload of an action is an \<^verbatim>\<open>interface{}\<close>: the terminal event, a rune or a
  style. A type assertion on a payload of another type panics.
\<close>

datatype AValue = VEvent | VRune rune | VStyle Style | VNil

record Action =
  name :: string
  avalue :: AValue

datatype 'a outcome = Returns 'a | Exits int | Panics string

subsection \<open>rootReducer\<close>

definition append_rune :: "AppState \<Rightarrow> AValue \<Rightarrow> AppState outcome" where
  "append_rune state v =
     (case v of
        VRune r \<Rightarrow> Returns (state\<lparr>userInput := userInput state @ string_of_rune r\<rparr>)
      | _ \<Rightarrow> Panics ''interface conversion: interface {} is not int32'')"

definition rootReducer :: "AppState \<Rightarrow> Action \<Rightarrow> AppState outcome" where
  "rootReducer state0 action =
     (let state = state0\<lparr>lastAction := name action\<rparr> in
      if name action = BinxKeyUp then
        (let w = byteVisWidth state;
             state = state\<lparr>startByte := startByte state - w\<rparr>
         in Returns (if startByte state <s 0 then state\<lparr>startByte := 0\<rparr> else state))
      else if name action = BinxKeyDown then
        Returns (state\<lparr>startByte := startByte state + byteVisWidth state\<rparr>)
      else if name action = BinxResize then
        (case Size (screen state) of
           (_, h) \<Rightarrow> Returns (state\<lparr>byteVisHeight := h - 1\<rparr>))
      else if name action = BinxEscape then
        (if mode state = NormalMode then Exits 0
         else
           (let state = (if mode state = SeekInputMode
                         then state\<lparr>mode := NormalMode, userInput := []\<rparr> else state);
                state = (if mode state = PatternInputMode
                         then state\<lparr>mode := NormalMode, userInput := []\<rparr> else state)
            in Returns state))
      else if name action = BinxKeyEnter then
        (if mode state = SeekInputMode then
           (case ParseInt (userInput state) 0 64 of
              (startByte', err) \<Rightarrow>
                Returns (state\<lparr>startByte := startByte', userInput := [], mode := NormalMode\<rparr>))
         else if mode state = PatternInputMode then
           (case findBytePattern (userInput state) (dat state) of
              (highlightPos', err) \<Rightarrow>
                (let state = (case err of
                                Some e \<Rightarrow> state\<lparr>status := Error e\<rparr>
                              | None \<Rightarrow> state)
                 in Returns (state\<lparr>highlightPos := highlightPos', userInput := []\<rparr>)))
         else Returns state)
      else if name action = BinxSetScreenStyle then
        (case avalue action of
           VStyle st \<Rightarrow> Returns (state\<lparr>screen := (screen state)\<lparr>style := st\<rparr>\<rparr>)
         | _ \<Rightarrow> Panics ''interface conversion: interface {} is not tcell.Style'')
      else if name action = BinxKeyS then
        (if mode state = NormalMode then
           Returns (state\<lparr>mode := SeekInputMode, userInput := []\<rparr>)
         else if mode state = SeekInputMode then append_rune state (avalue action)
         else Returns state)
      else if name action = BinxKeyF then
        (if mode state = NormalMode then
           Returns (state\<lparr>mode := PatternInputMode, userInput := []\<rparr>)
         else append_rune state (avalue action))
      else if name action = BinxKeyOther then
        (if mode state = SeekInputMode then append_rune state (avalue action)
         else Returns state)
      else Returns state)"

subsection \<open>render\<close>

text \<open>
  The slice expression \<^verbatim>\<open>a[low:high]\<close> on a slice needs
  \<^verbatim>\<open>0 <= low <= high <= cap(a)\<close> and panics otherwise; its elements come from the
  backing array. The render pass returns the cells of the byte grid it sets, as
  (column \<^verbatim>\<open>i%w\<close>, row \<^verbatim>\<open>i/w\<close>, byte value used as colour), in the order of the
  loop; Go's division truncates towards zero (\<open>sdiv\<close>, \<open>smod\<close>). The pass also
  recolours \<^verbatim>\<open>state.byteStyle\<close> with every byte it draws and then draws the status
  bar; the model tracks neither, only which bytes are read and whether the pass
  panics.
\<close>

definition slice_expr :: "ByteSlice \<Rightarrow> int64 \<Rightarrow> int64 \<Rightarrow> byte list outcome" where
  "slice_expr a low high =
     (if 0 \<le> sint low \<and> sint low \<le> sint high \<and> sint high \<le> int (cap a)
      then Returns (take (nat (sint high) - nat (sint low))
                      (drop (nat (sint low)) (elems a @ spare a)))
      else Panics ''slice bounds out of range'')"

definition numVisibleBytes :: "AppState \<Rightarrow> goint" where
  "numVisibleBytes state =
     (let n = byteVisWidth state * byteVisHeight state in if n <s 0 then 0 else n)"

definition render :: "AppState \<Rightarrow> (goint \<times> goint \<times> byte) list outcome" where
  "render state =
     (let w = byteVisWidth state
      in case slice_expr (dat state) (startByte state) (startByte state + numVisibleBytes state) of
           Returns bs \<Rightarrow>
             if bs \<noteq> [] \<and> w = 0 then Panics ''integer divide by zero''
             else Returns (map (\<lambda>(i, b). (of_int (int i smod sint w), of_int (int i sdiv sint w), b))
                             (zip [0 ..< length bs] bs))
         | Exits c \<Rightarrow> Exits c
         | Panics m \<Rightarrow> Panics m)"

subsection \<open>Events and the dispatch loop\<close>

text \<open>
  \<^verbatim>\<open>HandleTcellEvent\<close> sends one action for a resize or key event and none for any
  other event. \<^verbatim>\<open>Reduce\<close> runs the dispatched actions through the reducer in order;
  the model takes the actions as a list and stops at an exit or a panic.
\<close>

datatype Key = KeyEscape | KeyDown | KeyUp | KeyEnter | KeyRune | KeyOtherSpecial

datatype Event = EventResize | EventKey Key rune | EventOtherKind

definition HandleTcellEvent :: "Event \<Rightarrow> Action option" where
  "HandleTcellEvent ev =
     (case ev of
        EventResize \<Rightarrow> Some \<lparr>name = BinxResize, avalue = VEvent\<rparr>
      | EventKey k r \<Rightarrow>
          Some (if k = KeyEscape then \<lparr>name = BinxEscape, avalue = VEvent\<rparr>
                else if k = KeyDown then \<lparr>name = BinxKeyDown, avalue = VEvent\<rparr>
                else if k = KeyUp then \<lparr>name = BinxKeyUp, avalue = VEvent\<rparr>
                else if k = KeyEnter then \<lparr>name = BinxKeyEnter, avalue = VEvent\<rparr>
                else if r = 115 then \<lparr>name = BinxKeyS, avalue = VRune r\<rparr>
                else if r = 102 then \<lparr>name = BinxKeyF, avalue = VRune r\<rparr>
                else \<lparr>name = BinxKeyOther, avalue = VRune r\<rparr>)
      | EventOtherKind \<Rightarrow> None)"

fun Reduce :: "AppState \<Rightarrow> Action list \<Rightarrow> AppState outcome" where
  "Reduce state [] = Returns state"
| "Reduce state (action # rest) =
     (case rootReducer state action of
        Returns state' \<Rightarrow> Reduce state' rest
      | Exits c \<Rightarrow> Exits c
      | Panics m \<Rightarrow> Panics m)"

subsection \<open>Concrete inputs\<close>

text \<open>
  The buffer of \<^verbatim>\<open>Test_findBytePattern\<close>, the state \<^verbatim>\<open>main\<close> builds for a file
  with these ten bytes on an 80 by 25 terminal, and the actions of single keys.
\<close>

definition test_buf :: ByteSlice where
  "test_buf = \<lparr>elems = [0, 1, 2, 3, 4, 5, 6, 7, 8, 9], spare = []\<rparr>"

definition main_state :: AppState where
  "main_state =
     \<lparr>filename = ''f'', dat = test_buf, screen = \<lparr>Size = (80, 25), style = 0\<rparr>,
      byteVisWidth = 80, byteVisHeight = 24, statStyle = 0, byteStyle = 0, alertStyle = 0,
      startByte = 0, mode = NormalMode, userInput = [], highlightPos = 0,
      highlightLength = 0, lastAction = [], status = []\<rparr>"

definition enter :: Action where
  "enter = \<lparr>name = BinxKeyEnter, avalue = VEvent\<rparr>"

definition escape :: Action where
  "escape = \<lparr>name = BinxEscape, avalue = VEvent\<rparr>"

definition key_up :: Action where
  "key_up = \<lparr>name = BinxKeyUp, avalue = VEvent\<rparr>"

definition key_s :: Action where
  "key_s = \<lparr>name = BinxKeyS, avalue = VRune 115\<rparr>"

definition key_f :: Action where
  "key_f = \<lparr>name = BinxKeyF, avalue = VRune 102\<rparr>"

definition key_other :: "rune \<Rightarrow> Action" where
  "key_other r = \<lparr>name = BinxKeyOther, avalue = VRune r\<rparr>"

definition seek_state :: "string \<Rightarrow> AppState" where
  "seek_state inp = main_state\<lparr>mode := SeekInputMode, userInput := inp, startByte := 160\<rparr>"

definition pattern_state :: "string \<Rightarrow> AppState" where
  "pattern_state inp =
     main_state\<lparr>mode := PatternInputMode, userInput := inp, highlightPos := 5\<rparr>"

subsection \<open>Vocabulary of the properties\<close>

text \<open>
  \<open>occurs_at s sep i\<close>: the bytes \<open>sep\<close> stand in \<open>s\<close> at offset \<open>i\<close>.
  \<open>is_hex_pattern p\<close>: \<open>p\<close> has even length and consists of hexadecimal digits.
\<close>

definition occurs_at :: "byte list \<Rightarrow> byte list \<Rightarrow> nat \<Rightarrow> bool" where
  "occurs_at s sep i = (i + length sep \<le> length s \<and> take (length sep) (drop i s) = sep)"

definition is_hex_pattern :: "string \<Rightarrow> bool" where
  "is_hex_pattern p = (even (length p) \<and> list_all (\<lambda>c. fromHexChar c \<noteq> None) p)"

section \<open>Properties\<close>

lemmas mode_defs = NormalMode_def SeekInputMode_def PatternInputMode_def

lemmas action_defs =
  BinxResize_def BinxEscape_def BinxKeyEnter_def BinxKeyUp_def BinxKeyDown_def
  BinxSetScreenStyle_def BinxToggleSeekMode_def BinxKeyS_def BinxKeyF_def BinxKeyOther_def

lemmas key_defs = enter_def escape_def key_up_def key_s_def key_f_def key_other_def

text \<open>The key actions are those \<^verbatim>\<open>HandleTcellEvent\<close> sends.\<close>

lemma HandleTcellEvent_keys:
  "HandleTcellEvent (EventKey KeyEnter 0) = Some enter"
  "HandleTcellEvent (EventKey KeyEscape 0) = Some escape"
  "HandleTcellEvent (EventKey KeyUp 0) = Some key_up"
  "HandleTcellEvent (EventKey KeyRune 115) = Some key_s"
  "HandleTcellEvent (EventKey KeyRune 102) = Some key_f"
  "HandleTcellEvent (EventKey KeyRune 48) = Some (key_other 48)"
  "HandleTcellEvent (EventKey KeyRune 45) = Some (key_other 45)"
  "HandleTcellEvent (EventKey KeyRune 53) = Some (key_other 53)"
  by (simp_all add: HandleTcellEvent_def key_defs)

subsection \<open>Scrolling up\<close>

lemma sint_sub_no_wrap:
  fixes a b :: int64
  assumes "0 \<le>s a" and "0 <s b"
  shows "sint (a - b) = sint a - sint b"
proof -
  have a: "0 \<le> sint a" using assms(1) by (simp add: word_sle_eq)
  have b: "0 < sint b" using assms(2) by (simp add: word_sless_alt)
  have ua: "sint a < 2 ^ 63" using sint_lt [of a] by simp
  have ub: "sint b < 2 ^ 63" using sint_lt [of b] by simp
  have "sint (a - b) = signed_take_bit 63 (sint a - sint b)"
    by (simp add: sint_word_ariths)
  also have "\<dots> = sint a - sint b"
    using a b ua ub by (intro signed_take_bit_int_eq_self) auto
  finally show ?thesis .
qed

text \<open>
  C8. For a non-negative \<^verbatim>\<open>startByte\<close> and a positive \<^verbatim>\<open>byteVisWidth\<close>, the reducer on
  \<^verbatim>\<open>BINX_KEYUP\<close> returns a state whose \<^verbatim>\<open>startByte\<close> is
  \<open>max 0 (startByte - byteVisWidth)\<close> as a signed number, and is exactly 0 whenever
  \<^verbatim>\<open>startByte < byteVisWidth\<close>. The source takes this branch in every mode, Normal
  included; no other field but \<^verbatim>\<open>lastAction\<close> changes.
\<close>

theorem ScrollUp_clamps_at_zero:
  assumes "0 \<le>s startByte s" and "0 <s byteVisWidth s" and "name a = BinxKeyUp"
  shows "\<exists>v. rootReducer s a = Returns (s\<lparr>lastAction := name a, startByte := v\<rparr>) \<and>
               sint v = max 0 (sint (startByte s) - sint (byteVisWidth s)) \<and>
               (startByte s <s byteVisWidth s \<longrightarrow> v = 0)"
  using assms sint_sub_no_wrap [OF assms(1,2)]
  by (auto simp: rootReducer_def Let_def word_sless_alt word_sle_eq max_def)

theorem ScrollUp_clamps_at_zero_witness:
  "0 \<le>s startByte (main_state\<lparr>startByte := 30\<rparr>) \<and>
   0 <s byteVisWidth (main_state\<lparr>startByte := 30\<rparr>) \<and>
   name key_up = BinxKeyUp \<and>
   startByte (main_state\<lparr>startByte := 30\<rparr>) <s byteVisWidth (main_state\<lparr>startByte := 30\<rparr>) \<and>
   rootReducer (main_state\<lparr>startByte := 30\<rparr>) key_up =
     Returns (main_state\<lparr>lastAction := BinxKeyUp, startByte := 0\<rparr>)"
  using ScrollUp_clamps_at_zero [of "main_state\<lparr>startByte := 30\<rparr>" key_up]
  by (auto simp: main_state_def key_up_def word_sless_alt word_sle_eq)

subsection \<open>Escape and Enter\<close>

text \<open>
  C9. In \<^verbatim>\<open>SeekInputMode\<close> or \<^verbatim>\<open>PatternInputMode\<close>, the reducer on \<^verbatim>\<open>BINX_ESCAPE\<close>
  returns the state with \<^verbatim>\<open>mode\<close> set to \<^verbatim>\<open>NormalMode\<close>, \<^verbatim>\<open>userInput\<close> emptied and
  \<^verbatim>\<open>lastAction\<close> set; \<^verbatim>\<open>startByte\<close>, \<^verbatim>\<open>highlightPos\<close> and every other field are
  as before.
\<close>

theorem Escape_cancels_input:
  assumes "mode s = SeekInputMode \<or> mode s = PatternInputMode" and "name a = BinxEscape"
  shows "rootReducer s a =
           Returns (s\<lparr>lastAction := name a, mode := NormalMode, userInput := []\<rparr>) \<and>
         startByte (s\<lparr>lastAction := name a, mode := NormalMode, userInput := []\<rparr>) = startByte s \<and>
         highlightPos (s\<lparr>lastAction := name a, mode := NormalMode, userInput := []\<rparr>) =
           highlightPos s"
  using assms by (auto simp: rootReducer_def action_defs mode_defs)

theorem Escape_cancels_input_witness:
  "mode (main_state\<lparr>mode := PatternInputMode, userInput := ''ff'', startByte := 160\<rparr>) =
     PatternInputMode \<and>
   name escape = BinxEscape \<and>
   rootReducer (main_state\<lparr>mode := PatternInputMode, userInput := ''ff'', startByte := 160\<rparr>)
       escape =
     Returns (main_state\<lparr>lastAction := BinxEscape, startByte := 160\<rparr>)"
  using Escape_cancels_input
    [of "main_state\<lparr>mode := PatternInputMode, userInput := ''ff'', startByte := 160\<rparr>" escape]
  by (simp add: main_state_def escape_def)

text \<open>
  C10. In \<^verbatim>\<open>NormalMode\<close> the reducer on \<^verbatim>\<open>BINX_KEYENTER\<close> returns the state with
  \<^verbatim>\<open>lastAction\<close> set to the action's name and every other field unchanged.
\<close>

theorem Enter_in_NormalMode_is_noop:
  assumes "mode s = NormalMode" and "name a = BinxKeyEnter"
  shows "rootReducer s a = Returns (s\<lparr>lastAction := name a\<rparr>)"
  using assms by (simp add: rootReducer_def action_defs mode_defs)

theorem Enter_in_NormalMode_is_noop_witness:
  "mode main_state = NormalMode \<and> name enter = BinxKeyEnter \<and>
   rootReducer main_state enter = Returns (main_state\<lparr>lastAction := BinxKeyEnter\<rparr>)"
  using Enter_in_NormalMode_is_noop [of main_state enter]
  by (simp add: main_state_def enter_def)

subsection \<open>The pattern search\<close>

lemma HasPrefix_occurs_at: "HasPrefix s sep = occurs_at s sep 0"
  by (simp add: HasPrefix_def occurs_at_def)

lemma occurs_at_Cons_Suc: "occurs_at (b # bs) sep (Suc i) = occurs_at bs sep i"
  by (simp add: occurs_at_def)

lemma occurs_at_Nil: "occurs_at [] sep i = (sep = [] \<and> i = 0)"
  by (auto simp: occurs_at_def)

lemma occurs_at_bound: "occurs_at s sep i \<Longrightarrow> i \<le> length s"
  by (simp add: occurs_at_def)

lemma occurs_at_set: "occurs_at s sep i \<Longrightarrow> set sep \<subseteq> set s"
proof -
  assume "occurs_at s sep i"
  then have "sep = take (length sep) (drop i s)" by (simp add: occurs_at_def)
  then have "set sep \<subseteq> set (drop i s)" by (metis set_take_subset)
  then show ?thesis using set_drop_subset by fastforce
qed

lemma first_index_Some:
  "first_index s sep = Some i \<Longrightarrow> occurs_at s sep i \<and> (\<forall>j<i. \<not> occurs_at s sep j)"
proof (induction s arbitrary: i)
  case Nil
  then show ?case by (simp add: occurs_at_Nil split: if_splits)
next
  case (Cons b bs)
  show ?case
  proof (cases "HasPrefix (b # bs) sep")
    case True
    with Cons.prems show ?thesis by (simp add: HasPrefix_occurs_at)
  next
    case False
    with Cons.prems obtain k where k: "first_index bs sep = Some k" and i: "i = Suc k"
      by auto
    from Cons.IH [OF k] have ih: "occurs_at bs sep k" "\<forall>j<k. \<not> occurs_at bs sep j"
      by simp_all
    have "\<not> occurs_at (b # bs) sep j" if "j < i" for j
    proof (cases j)
      case 0
      with False show ?thesis by (simp add: HasPrefix_occurs_at)
    next
      case (Suc j')
      with that i ih(2) show ?thesis by (simp add: occurs_at_Cons_Suc)
    qed
    with ih(1) i show ?thesis by (simp add: occurs_at_Cons_Suc)
  qed
qed

lemma first_index_None: "first_index s sep = None \<Longrightarrow> \<not> occurs_at s sep i"
proof (induction s arbitrary: i)
  case Nil
  then show ?case by (simp add: occurs_at_Nil split: if_splits)
next
  case (Cons b bs)
  from Cons.prems have np: "\<not> HasPrefix (b # bs) sep" and r: "first_index bs sep = None"
    by (auto split: if_splits)
  show ?case
  proof (cases i)
    case 0
    with np show ?thesis by (simp add: HasPrefix_occurs_at)
  next
    case (Suc i')
    with Cons.IH [OF r] show ?thesis by (simp add: occurs_at_Cons_Suc)
  qed
qed

lemma first_index_present:
  assumes "occurs_at s sep k"
  shows "\<exists>i\<le>k. first_index s sep = Some i \<and> occurs_at s sep i \<and> (\<forall>j<i. \<not> occurs_at s sep j)"
proof (cases "first_index s sep")
  case None
  with assms first_index_None show ?thesis by blast
next
  case (Some i)
  from first_index_Some [OF Some] have p: "occurs_at s sep i" "\<forall>j<i. \<not> occurs_at s sep j"
    by simp_all
  with assms have "i \<le> k" by (meson not_le)
  with Some p show ?thesis by blast
qed

lemma sint_of_nat_int64:
  assumes "n < 2 ^ 63"
  shows "sint (of_nat n :: int64) = int n"
proof -
  have "sint (of_nat n :: int64) = signed_take_bit 63 (int n)"
    by (simp add: signed_of_nat)
  also have "\<dots> = int n"
    using assms by (intro signed_take_bit_int_eq_self) auto
  finally show ?thesis .
qed

lemma first_occurrence_found:
  assumes "DecodeString P = (pat, None)" and "occurs_at (elems B) pat k"
  shows "\<exists>i. findBytePattern P B = (of_nat i, None) \<and>
             occurs_at (elems B) pat i \<and> (\<forall>j<i. \<not> occurs_at (elems B) pat j) \<and>
             (length (elems B) < 2 ^ 63 \<longrightarrow> sint (of_nat i :: int64) = int i)"
proof -
  from first_index_present [OF assms(2)] obtain i where
    i: "first_index (elems B) pat = Some i" "occurs_at (elems B) pat i"
       "\<forall>j<i. \<not> occurs_at (elems B) pat j"
    by blast
  have "sint (of_nat i :: int64) = int i" if "length (elems B) < 2 ^ 63"
  proof -
    from that have "i < 2 ^ 63" using occurs_at_bound [OF i(2)] by simp
    then show ?thesis by (rule sint_of_nat_int64)
  qed
  moreover have "findBytePattern P B = (of_nat i, None)"
    using assms(1) i(1) by (simp add: findBytePattern_def Index_def)
  ultimately show ?thesis using i by blast
qed

lemma DecodeString_error_iff: "snd (DecodeString p) = None \<longleftrightarrow> is_hex_pattern p"
  by (induction p rule: DecodeString.induct)
     (auto simp: is_hex_pattern_def split: option.splits prod.splits)

lemma find_09: "findBytePattern ''09'' test_buf = (9, None)"
  by (simp add: findBytePattern_def Index_def HasPrefix_def test_buf_def fromHexChar_def)

lemma find_zz: "findBytePattern ''zz'' test_buf = (0, Some (InvalidByteError 122))"
  by (simp add: findBytePattern_def test_buf_def fromHexChar_def byte_of_char_def)

lemma Error_zz:
  "Error (InvalidByteError 122) =
     ''encoding/hex: invalid byte: U+007A '' @ [CHR 0x27, CHR ''z'', CHR 0x27]"
  by code_simp

text \<open>
  C6. For every buffer \<open>B\<close> and every pattern \<open>P\<close> that decodes without error to
  bytes \<open>pat\<close> occurring somewhere in \<open>B\<close>, \<^verbatim>\<open>findBytePattern\<close> returns, with no
  error, the offset \<open>i\<close> of the first occurrence: \<open>pat\<close> stands at \<open>i\<close> and at no
  smaller offset, and the \<^verbatim>\<open>int64\<close> returned reads as \<open>i\<close> for every buffer of a
  length an \<^verbatim>\<open>int\<close> can hold. For the ten bytes 0x00 to 0x09 and the pattern
  \<^verbatim>\<open>"09"\<close> it returns 9.
\<close>

theorem findBytePattern_first:
  "(\<forall>P (B :: ByteSlice) pat k.
       DecodeString P = (pat, None) \<and> occurs_at (elems B) pat k \<longrightarrow>
       (\<exists>i. findBytePattern P B = (of_nat i, None) \<and>
            occurs_at (elems B) pat i \<and> (\<forall>j<i. \<not> occurs_at (elems B) pat j) \<and>
            (length (elems B) < 2 ^ 63 \<longrightarrow> sint (of_nat i :: int64) = int i))) \<and>
   findBytePattern ''09'' test_buf = (9, None)"
proof (intro conjI allI impI)
  fix P and B :: ByteSlice and pat k
  assume "DecodeString P = (pat, None) \<and> occurs_at (elems B) pat k"
  then show "\<exists>i. findBytePattern P B = (of_nat i, None) \<and>
            occurs_at (elems B) pat i \<and> (\<forall>j<i. \<not> occurs_at (elems B) pat j) \<and>
            (length (elems B) < 2 ^ 63 \<longrightarrow> sint (of_nat i :: int64) = int i)"
    using first_occurrence_found by blast
next
  show "findBytePattern ''09'' test_buf = (9, None)"
    by (rule find_09)
qed

theorem findBytePattern_first_witness:
  "DecodeString ''0304'' = ([3, 4], None) \<and> occurs_at (elems test_buf) [3, 4] 3 \<and>
   length (elems test_buf) < 2 ^ 63 \<and>
   findBytePattern ''0304'' test_buf = (3, None) \<and> sint (3 :: int64) = 3"
proof -
  have h: "DecodeString ''0304'' = ([3, 4], None) \<and> occurs_at (elems test_buf) [3, 4] 3"
    by (simp add: fromHexChar_def occurs_at_def test_buf_def)
  have l: "length (elems test_buf) < 2 ^ 63"
    by (simp add: test_buf_def)
  from findBytePattern_first [THEN conjunct1, rule_format, OF h]
  obtain i where i: "findBytePattern ''0304'' test_buf = (of_nat i, None)"
    "occurs_at (elems test_buf) [3, 4] i" "\<forall>j<i. \<not> occurs_at (elems test_buf) [3, 4] j"
    by blast
  have "\<not> i < 3"
  proof
    assume "i < 3"
    then have "i = 0 \<or> i = 1 \<or> i = 2" by arith
    with i(2) show False by (auto simp: occurs_at_def test_buf_def)
  qed
  moreover have "\<not> 3 < i" using i(3) h by blast
  ultimately have "i = 3" by arith
  with i(1) h l show ?thesis by simp
qed

text \<open>
  C5, as the code has it. \<^verbatim>\<open>findBytePattern\<close> returns \<^verbatim>\<open>(0, err)\<close> with an error for
  every pattern that is of odd length or holds a character that is no hexadecimal
  digit; it returns \<^verbatim>\<open>(-1, nil)\<close>, with no error, when the pattern decodes and its
  bytes occur nowhere in the buffer, so the caller tells the two apart by the error.
  The empty pattern is not invalid: it decodes to no bytes and is found at offset 0.
\<close>

theorem findBytePattern_outcomes:
  "(\<not> is_hex_pattern p \<longrightarrow> (\<exists>e. findBytePattern p buf = (0, Some e))) \<and>
   (is_hex_pattern p \<and> (\<forall>i. \<not> occurs_at (elems buf) (fst (DecodeString p)) i) \<longrightarrow>
      findBytePattern p buf = (- 1, None)) \<and>
   is_hex_pattern [] \<and> findBytePattern [] buf = (0, None)"
proof (intro conjI impI)
  assume "\<not> is_hex_pattern p"
  then obtain e where "snd (DecodeString p) = Some e"
    using DecodeString_error_iff [of p] by auto
  then show "\<exists>e. findBytePattern p buf = (0, Some e)"
    by (cases "DecodeString p") (simp add: findBytePattern_def)
next
  assume a: "is_hex_pattern p \<and> (\<forall>i. \<not> occurs_at (elems buf) (fst (DecodeString p)) i)"
  then obtain pat where d: "DecodeString p = (pat, None)"
    using DecodeString_error_iff [of p] by (cases "DecodeString p") auto
  have "first_index (elems buf) pat = None"
  proof (cases "first_index (elems buf) pat")
    case (Some i)
    from first_index_Some [OF Some] a d show ?thesis by simp
  qed simp
  with d show "findBytePattern p buf = (- 1, None)"
    by (simp add: findBytePattern_def Index_def)
next
  show "is_hex_pattern []" by (simp add: is_hex_pattern_def)
next
  show "findBytePattern [] buf = (0, None)"
    by (cases "elems buf") (simp_all add: findBytePattern_def Index_def HasPrefix_def)
qed

theorem findBytePattern_outcomes_witness:
  "\<not> is_hex_pattern ''zz'' \<and> \<not> is_hex_pattern ''0'' \<and>
   findBytePattern ''zz'' test_buf = (0, Some (InvalidByteError 122)) \<and>
   findBytePattern ''0'' test_buf = (0, Some ErrLength) \<and>
   is_hex_pattern ''ff'' \<and> findBytePattern ''ff'' test_buf = (- 1, None)"
proof -
  have nz: "\<not> is_hex_pattern ''zz''" and n0: "\<not> is_hex_pattern ''0''"
    and f: "is_hex_pattern ''ff''"
    by (simp_all add: is_hex_pattern_def fromHexChar_def)
  have d: "DecodeString ''ff'' = ([255], None)"
    by (simp add: fromHexChar_def)
  have absent: "\<forall>i. \<not> occurs_at (elems test_buf) (fst (DecodeString ''ff'')) i"
  proof
    fix i
    show "\<not> occurs_at (elems test_buf) (fst (DecodeString ''ff'')) i"
      unfolding d using occurs_at_set [of "elems test_buf" "[255]" i]
      by (auto simp: test_buf_def)
  qed
  have z: "findBytePattern ''zz'' test_buf = (0, Some (InvalidByteError 122))"
    using findBytePattern_outcomes [of "''zz''" test_buf] nz
    by (simp add: findBytePattern_def fromHexChar_def byte_of_char_def)
  have o: "findBytePattern ''0'' test_buf = (0, Some ErrLength)"
    using findBytePattern_outcomes [of "''0''" test_buf] n0
    by (simp add: findBytePattern_def fromHexChar_def)
  have m: "findBytePattern ''ff'' test_buf = (- 1, None)"
    using findBytePattern_outcomes [of "''ff''" test_buf] f absent by blast
  from nz n0 z o f m show ?thesis by blast
qed

text \<open>
  The claim as written fails on the empty pattern: it is reported as found at offset
  0 with no error, a result different from the one of an invalid pattern.
\<close>

theorem empty_pattern_counterexample:
  "findBytePattern [] test_buf = (0, None) \<and> snd (findBytePattern [] test_buf) = None \<and>
   findBytePattern ''zz'' test_buf = (0, Some (InvalidByteError 122)) \<and>
   findBytePattern [] test_buf \<noteq> findBytePattern ''zz'' test_buf"
  by (simp add: findBytePattern_def Index_def HasPrefix_def test_buf_def fromHexChar_def
      byte_of_char_def)

subsection \<open>Committing a seek\<close>

text \<open>
  C4, as the code has it. In \<^verbatim>\<open>SeekInputMode\<close> the reducer on \<^verbatim>\<open>BINX_KEYENTER\<close> parses
  \<^verbatim>\<open>userInput\<close> with \<^verbatim>\<open>ParseInt(userInput, 0, 64)\<close> and, whether or not the parse
  succeeds, returns to \<^verbatim>\<open>NormalMode\<close> with \<^verbatim>\<open>userInput\<close> emptied and \<^verbatim>\<open>status\<close>
  untouched; when the parse succeeds, \<^verbatim>\<open>startByte\<close> is exactly the parsed value. The
  literals \<^verbatim>\<open>"0x10"\<close>, \<^verbatim>\<open>"160"\<close> and \<^verbatim>\<open>"017"\<close> parse to 16, 160 and 15; the
  parser of base 0 takes \<^verbatim>\<open>"0b101"\<close>, \<^verbatim>\<open>"0o17"\<close> and \<^verbatim>\<open>"1_000"\<close> as well, as 5, 15
  and 1000.
\<close>

theorem SeekInput_Commit:
  assumes "mode s = SeekInputMode" and "name a = BinxKeyEnter"
  shows "(\<exists>s'. rootReducer s a = Returns s' \<and> mode s' = NormalMode \<and> userInput s' = [] \<and>
            status s' = status s \<and>
            (\<forall>v. ParseInt (userInput s) 0 64 = (v, None) \<longrightarrow> startByte s' = v)) \<and>
         ParseInt ''0x10'' 0 64 = (16, None) \<and> ParseInt ''160'' 0 64 = (160, None) \<and>
         ParseInt ''017'' 0 64 = (15, None) \<and> ParseInt ''0b101'' 0 64 = (5, None) \<and>
         ParseInt ''0o17'' 0 64 = (15, None) \<and> ParseInt ''1_000'' 0 64 = (1000, None)"
proof -
  have "ParseInt ''0x10'' 0 64 = (16, None)" "ParseInt ''160'' 0 64 = (160, None)"
    "ParseInt ''017'' 0 64 = (15, None)" "ParseInt ''0b101'' 0 64 = (5, None)"
    "ParseInt ''0o17'' 0 64 = (15, None)" "ParseInt ''1_000'' 0 64 = (1000, None)"
    by code_simp+
  moreover have "\<exists>s'. rootReducer s a = Returns s' \<and> mode s' = NormalMode \<and> userInput s' = [] \<and>
            status s' = status s \<and>
            (\<forall>v. ParseInt (userInput s) 0 64 = (v, None) \<longrightarrow> startByte s' = v)"
    using assms
    by (cases "ParseInt (userInput s) 0 64") (simp add: rootReducer_def action_defs mode_defs)
  ultimately show ?thesis by blast
qed

theorem SeekInput_Commit_witness:
  "mode (seek_state ''0x10'') = SeekInputMode \<and> mode (seek_state ''1_000'') = SeekInputMode \<and>
   name enter = BinxKeyEnter \<and>
   ParseInt (userInput (seek_state ''0x10'')) 0 64 = (16, None) \<and>
   rootReducer (seek_state ''0x10'') enter =
     Returns (main_state\<lparr>lastAction := BinxKeyEnter, startByte := 16\<rparr>) \<and>
   ParseInt (userInput (seek_state ''1_000'')) 0 64 = (1000, None) \<and>
   rootReducer (seek_state ''1_000'') enter =
     Returns (main_state\<lparr>lastAction := BinxKeyEnter, startByte := 1000\<rparr>)"
proof -
  have p: "ParseInt ''0x10'' 0 64 = (16, None)" by code_simp
  have q: "ParseInt ''1_000'' 0 64 = (1000, None)" by code_simp
  have m: "mode (seek_state ''0x10'') = SeekInputMode" "name enter = BinxKeyEnter"
    "mode (seek_state ''1_000'') = SeekInputMode"
    by (simp_all add: seek_state_def enter_def)
  have r: "rootReducer (seek_state ''0x10'') enter =
     Returns (main_state\<lparr>lastAction := BinxKeyEnter, startByte := 16\<rparr>)"
    using SeekInput_Commit [OF m(1,2)]
    by (simp add: rootReducer_def seek_state_def enter_def main_state_def action_defs mode_defs p)
  have t: "rootReducer (seek_state ''1_000'') enter =
     Returns (main_state\<lparr>lastAction := BinxKeyEnter, startByte := 1000\<rparr>)"
    using SeekInput_Commit [OF m(3,2)]
    by (simp add: rootReducer_def seek_state_def enter_def main_state_def action_defs mode_defs q)
  from p q m r t show ?thesis by (simp add: seek_state_def)
qed

text \<open>
  The claim as written fails on an input that does not parse: with \<^verbatim>\<open>userInput = "zz"\<close>
  and \<^verbatim>\<open>startByte = 160\<close> the reducer leaves \<^verbatim>\<open>SeekInputMode\<close>, empties \<^verbatim>\<open>userInput\<close>,
  stores the 0 that comes with the error in \<^verbatim>\<open>startByte\<close> and writes no status.
\<close>

theorem SeekInput_Commit_counterexample:
  "mode (seek_state ''zz'') = SeekInputMode \<and>
   ParseInt ''zz'' 0 64 = (0, Some (NumError ''ParseInt'' ''zz'' ErrSyntax)) \<and>
   rootReducer (seek_state ''zz'') enter =
     Returns (main_state\<lparr>lastAction := BinxKeyEnter\<rparr>) \<and>
   mode (main_state\<lparr>lastAction := BinxKeyEnter\<rparr>) = NormalMode \<and>
   NormalMode \<noteq> SeekInputMode \<and>
   userInput (main_state\<lparr>lastAction := BinxKeyEnter\<rparr>) = [] \<and>
   userInput (seek_state ''zz'') = ''zz'' \<and>
   startByte (seek_state ''zz'') = 160 \<and>
   startByte (main_state\<lparr>lastAction := BinxKeyEnter\<rparr>) = 0 \<and>
   status (main_state\<lparr>lastAction := BinxKeyEnter\<rparr>) = status (seek_state ''zz'')"
proof -
  have p: "ParseInt ''zz'' 0 64 = (0, Some (NumError ''ParseInt'' ''zz'' ErrSyntax))"
    by code_simp
  then show ?thesis
    by (simp add: rootReducer_def seek_state_def enter_def main_state_def action_defs mode_defs)
qed

subsection \<open>Committing a pattern search\<close>

text \<open>
  C3, as the code has it. In \<^verbatim>\<open>PatternInputMode\<close> the reducer on \<^verbatim>\<open>BINX_KEYENTER\<close>
  empties \<^verbatim>\<open>userInput\<close> and stays in \<^verbatim>\<open>PatternInputMode\<close> in every case. When the
  pattern decodes, \<^verbatim>\<open>highlightPos\<close> becomes the result of the search (the offset of
  the first occurrence, or \<^verbatim>\<open>-1\<close> when there is none) and \<^verbatim>\<open>status\<close> is untouched;
  when the pattern is invalid, \<^verbatim>\<open>status\<close> becomes the message of the decoding error.
\<close>

theorem PatternInput_Commit:
  assumes "mode s = PatternInputMode" and "name a = BinxKeyEnter"
  shows "\<exists>s'. rootReducer s a = Returns s' \<and> mode s' = PatternInputMode \<and> userInput s' = [] \<and>
           (\<forall>pos. findBytePattern (userInput s) (dat s) = (pos, None) \<longrightarrow>
              highlightPos s' = pos \<and> status s' = status s) \<and>
           (\<forall>pos e. findBytePattern (userInput s) (dat s) = (pos, Some e) \<longrightarrow>
              status s' = Error e)"
  using assms
  by (cases "findBytePattern (userInput s) (dat s)")
     (auto simp: rootReducer_def Let_def action_defs mode_defs split: option.splits)

theorem PatternInput_Commit_witness:
  "mode (pattern_state ''09'') = PatternInputMode \<and>
   mode (pattern_state ''zz'') = PatternInputMode \<and> name enter = BinxKeyEnter \<and>
   findBytePattern ''09'' test_buf = (9, None) \<and>
   rootReducer (pattern_state ''09'') enter =
     Returns (main_state\<lparr>mode := PatternInputMode, highlightPos := 9,
                         lastAction := BinxKeyEnter\<rparr>) \<and>
   findBytePattern ''zz'' test_buf = (0, Some (InvalidByteError 122)) \<and>
   status (pattern_state ''zz'') = [] \<and>
   rootReducer (pattern_state ''zz'') enter =
     Returns (main_state\<lparr>mode := PatternInputMode, lastAction := BinxKeyEnter,
                status := Error (InvalidByteError 122)\<rparr>)"
proof -
  have m: "mode (pattern_state ''09'') = PatternInputMode"
    "mode (pattern_state ''zz'') = PatternInputMode" "name enter = BinxKeyEnter"
    by (simp_all add: pattern_state_def enter_def)
  have a: "rootReducer (pattern_state ''09'') enter =
     Returns (main_state\<lparr>mode := PatternInputMode, highlightPos := 9,
                         lastAction := BinxKeyEnter\<rparr>)"
    using PatternInput_Commit [OF m(1,3)] find_09
    by (simp add: rootReducer_def pattern_state_def enter_def main_state_def action_defs mode_defs)
  have b: "rootReducer (pattern_state ''zz'') enter =
     Returns (main_state\<lparr>mode := PatternInputMode, lastAction := BinxKeyEnter,
                status := Error (InvalidByteError 122)\<rparr>)"
    using PatternInput_Commit [OF m(2,3)] find_zz
    by (simp add: rootReducer_def pattern_state_def enter_def main_state_def action_defs mode_defs
        del: Error.simps)
  from m a b find_09 find_zz show ?thesis by (simp add: pattern_state_def main_state_def)
qed

text \<open>
  The claim as written fails on the scenario of the invalid pattern \<^verbatim>\<open>"zz"\<close>: the mode
  after the commit is \<^verbatim>\<open>PatternInputMode\<close>, not \<^verbatim>\<open>NormalMode\<close>, and \<^verbatim>\<open>highlightPos\<close>
  went from 5 to 0.
\<close>

theorem PatternInput_Commit_counterexample:
  "mode (pattern_state ''zz'') = PatternInputMode \<and>
   highlightPos (pattern_state ''zz'') = 5 \<and>
   rootReducer (pattern_state ''zz'') enter =
     Returns (main_state\<lparr>mode := PatternInputMode, lastAction := BinxKeyEnter,
                status := Error (InvalidByteError 122)\<rparr>) \<and>
   mode (main_state\<lparr>mode := PatternInputMode, lastAction := BinxKeyEnter,
           status := Error (InvalidByteError 122)\<rparr>) \<noteq> NormalMode \<and>
   highlightPos (main_state\<lparr>mode := PatternInputMode, lastAction := BinxKeyEnter,
           status := Error (InvalidByteError 122)\<rparr>) = 0"
  using find_zz
  by (simp add: rootReducer_def pattern_state_def enter_def main_state_def action_defs mode_defs
        del: Error.simps)

subsection \<open>Typing in PatternInputMode\<close>

lemma KeyOther_in_PatternInputMode:
  assumes "mode s = PatternInputMode" and "name a = BinxKeyOther"
  shows "rootReducer s a = Returns (s\<lparr>lastAction := name a\<rparr>)"
  using assms by (simp add: rootReducer_def action_defs mode_defs)

lemma KeyS_in_PatternInputMode:
  assumes "mode s = PatternInputMode" and "name a = BinxKeyS"
  shows "rootReducer s a = Returns (s\<lparr>lastAction := name a\<rparr>)"
  using assms by (simp add: rootReducer_def action_defs mode_defs)

lemma KeyF_in_PatternInputMode:
  assumes "mode s = PatternInputMode" and "name a = BinxKeyF" and "avalue a = VRune r"
  shows "rootReducer s a =
           Returns (s\<lparr>lastAction := name a, userInput := userInput s @ string_of_rune r\<rparr>)"
  using assms by (simp add: rootReducer_def append_rune_def action_defs mode_defs)

text \<open>
  C7. In \<^verbatim>\<open>PatternInputMode\<close> with an empty \<^verbatim>\<open>userInput\<close>, the action of the key
  \<^verbatim>\<open>0\<close> (\<^verbatim>\<open>BINX_KEY_OTHER\<close>) and the action of the key \<^verbatim>\<open>s\<close> leave \<^verbatim>\<open>userInput\<close> empty:
  the reducer appends on \<^verbatim>\<open>BINX_KEY_OTHER\<close> and \<^verbatim>\<open>BINX_KEY_S\<close> in \<^verbatim>\<open>SeekInputMode\<close>
  only. The key \<^verbatim>\<open>f\<close> alone is appended.
\<close>

theorem PatternInput_drops_typed_keys:
  "mode (pattern_state []) = PatternInputMode \<and>
   HandleTcellEvent (EventKey KeyRune 48) = Some (key_other 48) \<and>
   rootReducer (pattern_state []) (key_other 48) =
     Returns ((pattern_state [])\<lparr>lastAction := BinxKeyOther\<rparr>) \<and>
   userInput ((pattern_state [])\<lparr>lastAction := BinxKeyOther\<rparr>) = [] \<and>
   rootReducer (pattern_state []) key_s = Returns ((pattern_state [])\<lparr>lastAction := BinxKeyS\<rparr>) \<and>
   rootReducer (pattern_state []) key_f =
     Returns ((pattern_state [])\<lparr>lastAction := BinxKeyF, userInput := ''f''\<rparr>) \<and>
   rootReducer (seek_state []) (key_other 48) =
     Returns ((seek_state [])\<lparr>lastAction := BinxKeyOther, userInput := ''0''\<rparr>)"
  by code_simp

subsection \<open>The sign of startByte\<close>

text \<open>
  C1. From the state \<^verbatim>\<open>main\<close> builds, the keys \<^verbatim>\<open>s\<close>, \<^verbatim>\<open>-\<close>, \<^verbatim>\<open>5\<close> and Enter take
  \<^verbatim>\<open>startByte\<close> from 0 to \<^verbatim>\<open>-5\<close>: the seek commit stores what \<^verbatim>\<open>ParseInt\<close> returns
  and, unlike the \<^verbatim>\<open>BINX_KEYUP\<close> branch, does not reset a negative value to 0. The
  render pass of the state reached panics.
\<close>

theorem negative_seek_breaks_invariant:
  "startByte main_state = 0 \<and>
   Reduce main_state [key_s, key_other 45, key_other 53, enter] =
     Returns (main_state\<lparr>lastAction := BinxKeyEnter, startByte := - 5\<rparr>) \<and>
   startByte (main_state\<lparr>lastAction := BinxKeyEnter, startByte := - 5\<rparr>) <s 0 \<and>
   render (main_state\<lparr>lastAction := BinxKeyEnter, startByte := - 5\<rparr>) =
     Panics ''slice bounds out of range''"
  by code_simp

subsection \<open>The render pass at the end of the buffer\<close>

lemma render_Panics_iff:
  "render s = Panics ''slice bounds out of range'' \<longleftrightarrow>
     \<not> (0 \<le> sint (startByte s) \<and>
        sint (startByte s) \<le> sint (startByte s + numVisibleBytes s) \<and>
        sint (startByte s + numVisibleBytes s) \<le> int (cap (dat s)))"
  by (auto simp: render_def slice_expr_def Let_def)

text \<open>
  Within the capacity of the slice the render pass does not panic, and the cells past
  the length show bytes of the backing array: a buffer of ten bytes with two spare
  bytes of capacity, on a grid of 4 by 3.
\<close>

lemma render_reads_spare_capacity:
  "render (main_state\<lparr>dat := \<lparr>elems = [0, 1, 2, 3, 4, 5, 6, 7, 8, 9], spare = [170, 187]\<rparr>,
                      byteVisWidth := 4, byteVisHeight := 3\<rparr>) =
     Returns [(0, 0, 0), (1, 0, 1), (2, 0, 2), (3, 0, 3), (0, 1, 4), (1, 1, 5), (2, 1, 6),
              (3, 1, 7), (0, 2, 8), (1, 2, 9), (2, 2, 170), (3, 2, 187)]"
  by code_simp

text \<open>
  C2. The state \<^verbatim>\<open>main\<close> builds for a file of ten bytes on an 80 by 25 terminal has
  \<^verbatim>\<open>startByte = 0\<close> and a viewport of 80 by 24; its render pass slices
  \<^verbatim>\<open>dat[0:1920]\<close> and panics, since the slice expression is not clamped to the
  buffer. It panics as well when the ten bytes sit in a backing array of 512.
\<close>

theorem render_small_file_panics:
  "startByte main_state = 0 \<and> 0 <s byteVisWidth main_state \<and> 0 <s byteVisHeight main_state \<and>
   len (dat main_state) = 10 \<and> numVisibleBytes main_state = 1920 \<and>
   render main_state = Panics ''slice bounds out of range'' \<and>
   cap ((dat main_state)\<lparr>spare := replicate 502 0\<rparr>) = 512 \<and>
   render (main_state\<lparr>dat := (dat main_state)\<lparr>spare := replicate 502 0\<rparr>\<rparr>) =
     Panics ''slice bounds out of range''"
  by code_simp

end
